theory Spec2Isabelle
  imports Complex_Main "HOL-Library.AList" "HOL-Library.Char_ord" "HOL-Library.List_Lexorder"
    "HOL-Library.Multiset"
begin

section \<open>Data model (models.py)\<close>

datatype SubjectArea =
    HISTORY_SOCIAL_SCIENCE | ENGLISH | MATHEMATICS | LABORATORY_SCIENCE | LANGUAGE_OTHER
  | VISUAL_PERFORMING_ARTS | COLLEGE_PREP_ELECTIVE | PHYSICAL_EDUCATION | RELIGIOUS_STUDIES
  | ELECTIVE

datatype RoomType =
    GENERAL | CHEMISTRY_LAB | BIOLOGY_LAB | COMPUTER_LAB | ROBOTICS_LAB | ART_ROOM | GYM
  | MUSIC_ROOM

datatype GraduationPath = MINIMUM | PRE_MED | ENGINEERING

datatype CourseLevel = REGULAR | HONORS | AP

text \<open>The \<open>.name\<close> attribute of the two enums whose member names are formatted into ids.\<close>

fun RoomType_name :: "RoomType \<Rightarrow> string" where
  "RoomType_name GENERAL = ''GENERAL''"
| "RoomType_name CHEMISTRY_LAB = ''CHEMISTRY_LAB''"
| "RoomType_name BIOLOGY_LAB = ''BIOLOGY_LAB''"
| "RoomType_name COMPUTER_LAB = ''COMPUTER_LAB''"
| "RoomType_name ROBOTICS_LAB = ''ROBOTICS_LAB''"
| "RoomType_name ART_ROOM = ''ART_ROOM''"
| "RoomType_name GYM = ''GYM''"
| "RoomType_name MUSIC_ROOM = ''MUSIC_ROOM''"

fun SubjectArea_name :: "SubjectArea \<Rightarrow> string" where
  "SubjectArea_name HISTORY_SOCIAL_SCIENCE = ''HISTORY_SOCIAL_SCIENCE''"
| "SubjectArea_name ENGLISH = ''ENGLISH''"
| "SubjectArea_name MATHEMATICS = ''MATHEMATICS''"
| "SubjectArea_name LABORATORY_SCIENCE = ''LABORATORY_SCIENCE''"
| "SubjectArea_name LANGUAGE_OTHER = ''LANGUAGE_OTHER''"
| "SubjectArea_name VISUAL_PERFORMING_ARTS = ''VISUAL_PERFORMING_ARTS''"
| "SubjectArea_name COLLEGE_PREP_ELECTIVE = ''COLLEGE_PREP_ELECTIVE''"
| "SubjectArea_name PHYSICAL_EDUCATION = ''PHYSICAL_EDUCATION''"
| "SubjectArea_name RELIGIOUS_STUDIES = ''RELIGIOUS_STUDIES''"
| "SubjectArea_name ELECTIVE = ''ELECTIVE''"

text \<open>
  The dataclasses, with the fields the calculator and the scheduler read. Field names
  that several classes share (\<open>id\<close>, \<open>name\<close>) carry the class as a prefix. Of
  \<open>Course\<close> the fields \<open>prerequisites\<close>, \<open>grade_levels\<close>,
  \<open>is_required_for_paths\<close> and \<open>description\<close> are read by no function below and
  are left out.
\<close>

record Course =
  code :: string
  course_name :: string
  subject_area :: SubjectArea
  level :: CourseLevel
  credits :: int
  semesters :: int
  room_type_required :: RoomType

record Classroom =
  classroom_ident :: string
  classroom_name :: string
  room_type :: RoomType
  capacity :: int

record Teacher =
  teacher_ident :: string
  teacher_name :: string
  subject_areas :: "SubjectArea list"
  can_teach_ap :: bool
  max_periods_per_day :: int

definition can_host :: "Classroom \<Rightarrow> Course \<Rightarrow> bool" where
  "can_host self course =
     (if room_type_required course = GENERAL then True
      else room_type self = room_type_required course)"

definition can_teach :: "Teacher \<Rightarrow> Course \<Rightarrow> bool" where
  "can_teach self course =
     (if subject_area course \<notin> set (subject_areas self) then False
      else if level course = AP \<and> \<not> can_teach_ap self then False
      else True)"

section \<open>Python values\<close>

datatype error = ZeroDivisionError | KeyError string

text \<open>
  \<open>math.ceil(a / b)\<close> on two ints: the true quotient rounded up, \<open>ZeroDivisionError\<close>
  when \<open>b\<close> is zero. The float quotient is exact enough to give the integer ceiling
  for magnitudes below \<open>2 ^ 53\<close>; enrolments are far below that, and the model is the
  integer ceiling.
\<close>

definition ceil_div :: "int \<Rightarrow> int \<Rightarrow> int" where
  "ceil_div a b = - ((- a) div b)"

definition math_ceil_div :: "int \<Rightarrow> int \<Rightarrow> error + int" where
  "math_ceil_div a b = (if b = 0 then Inl ZeroDivisionError else Inr (ceil_div a b))"

text \<open>\<open>str(i)\<close> of an int, as the f-strings format section and resource numbers.\<close>

function str_nat :: "nat \<Rightarrow> string" where
  "str_nat n =
     (if n < 10 then [''0123456789'' ! n]
      else str_nat (n div 10) @ [''0123456789'' ! (n mod 10)])"
  by pat_completeness auto
termination
  by (relation "measure (\<lambda>n. n)") auto

declare str_nat.simps [simp del]

definition str_int :: "int \<Rightarrow> string" where
  "str_int i = (if i < 0 then CHR ''-'' # str_nat (nat (- i)) else str_nat (nat i))"

text \<open>
  A \<open>dict\<close> keeps its keys in insertion order, and that order decides the order of the
  rooms, of the teachers and of the courses below. It is an association list with distinct
  keys: \<open>AList.update\<close> overwrites a present key in place and appends an absent one, as
  \<open>d[k] = v\<close> does. \<open>d.get(k, default)\<close> is \<open>get_default\<close>.
\<close>

definition get_default :: "('k \<times> 'v) list \<Rightarrow> 'k \<Rightarrow> 'v \<Rightarrow> 'v" where
  "get_default d k dflt = (case map_of d k of None \<Rightarrow> dflt | Some v \<Rightarrow> v)"

definition sum_values :: "('k \<times> int) list \<Rightarrow> int" where
  "sum_values d = sum_list (map snd d)"

section \<open>Graduation paths (graduation_paths.py)\<close>

record YearPlan =
  year :: int
  semester1_courses :: "string list"
  semester2_courses :: "string list"

text \<open>Of \<open>GraduationPathPlan\<close>, \<open>description\<close> and \<open>total_credits\<close> are left out.\<close>

record GraduationPathPlan =
  path :: GraduationPath
  year_plans :: "YearPlan list"

text \<open>
  The module-level environment the classes read: the catalog \<open>COURSE_CATALOG\<close> (looked
  up with \<open>.get\<close> and \<open>[]\<close>), the plans \<open>get_all_paths()\<close> returns (a dict with all
  three paths as keys, hence a total function), and the order in which \<open>list(set(xs))\<close>
  enumerates a set of strings, which depends on the interpreter's string hashing.
\<close>

record env =
  COURSE_CATALOG :: "string \<Rightarrow> Course option"
  get_all_paths :: "GraduationPath \<Rightarrow> GraduationPathPlan"
  list_of_set :: "string list \<Rightarrow> string list"

definition get_all_courses :: "env \<Rightarrow> YearPlan \<Rightarrow> string list" where
  "get_all_courses e self = list_of_set e (semester1_courses self @ semester2_courses self)"


subsection \<open>The repository's catalog and plans\<close>

definition mk_course ::
  "string \<Rightarrow> string \<Rightarrow> SubjectArea \<Rightarrow> CourseLevel \<Rightarrow> int \<Rightarrow> int \<Rightarrow> RoomType \<Rightarrow> Course" where
  "mk_course c n s l cr sem r =
     \<lparr>code = c, course_name = n, subject_area = s, level = l, credits = cr, semesters = sem,
      room_type_required = r\<rparr>"

definition create_course_catalog :: "(string \<times> Course) list" where
  "create_course_catalog = [
    (''WHIST'', mk_course ''WHIST'' ''World History'' HISTORY_SOCIAL_SCIENCE REGULAR 10 2 GENERAL),
    (''WHIST-AP'', mk_course ''WHIST-AP'' ''AP World History'' HISTORY_SOCIAL_SCIENCE AP 10 2 GENERAL),
    (''USHIST'', mk_course ''USHIST'' ''US History'' HISTORY_SOCIAL_SCIENCE REGULAR 10 2 GENERAL),
    (''USHIST-AP'', mk_course ''USHIST-AP'' ''AP US History'' HISTORY_SOCIAL_SCIENCE AP 10 2 GENERAL),
    (''GOVT'', mk_course ''GOVT'' ''US Government'' HISTORY_SOCIAL_SCIENCE REGULAR 5 1 GENERAL),
    (''GOVT-AP'', mk_course ''GOVT-AP'' ''AP US Government'' HISTORY_SOCIAL_SCIENCE AP 5 1 GENERAL),
    (''ECON'', mk_course ''ECON'' ''Economics'' HISTORY_SOCIAL_SCIENCE REGULAR 5 1 GENERAL),
    (''ENG9'', mk_course ''ENG9'' ''English 9'' ENGLISH REGULAR 10 2 GENERAL),
    (''ENG10'', mk_course ''ENG10'' ''English 10'' ENGLISH REGULAR 10 2 GENERAL),
    (''ENG11'', mk_course ''ENG11'' ''English 11'' ENGLISH REGULAR 10 2 GENERAL),
    (''ENG11-AP'', mk_course ''ENG11-AP'' ''AP English Language'' ENGLISH AP 10 2 GENERAL),
    (''ENG12'', mk_course ''ENG12'' ''English 12'' ENGLISH REGULAR 10 2 GENERAL),
    (''ENG12-AP'', mk_course ''ENG12-AP'' ''AP English Literature'' ENGLISH AP 10 2 GENERAL),
    (''ALG1'', mk_course ''ALG1'' ''Algebra 1'' MATHEMATICS REGULAR 10 2 GENERAL),
    (''GEOM'', mk_course ''GEOM'' ''Geometry'' MATHEMATICS REGULAR 10 2 GENERAL),
    (''ALG2'', mk_course ''ALG2'' ''Algebra 2'' MATHEMATICS REGULAR 10 2 GENERAL),
    (''PRECALC'', mk_course ''PRECALC'' ''Pre-Calculus'' MATHEMATICS REGULAR 10 2 GENERAL),
    (''CALC-AP-AB'', mk_course ''CALC-AP-AB'' ''AP Calculus AB'' MATHEMATICS AP 10 2 GENERAL),
    (''CALC-AP-BC'', mk_course ''CALC-AP-BC'' ''AP Calculus BC'' MATHEMATICS AP 10 2 GENERAL),
    (''STATS-AP'', mk_course ''STATS-AP'' ''AP Statistics'' MATHEMATICS AP 10 2 GENERAL),
    (''BIO'', mk_course ''BIO'' ''Biology'' LABORATORY_SCIENCE REGULAR 10 2 BIOLOGY_LAB),
    (''BIO-AP'', mk_course ''BIO-AP'' ''AP Biology'' LABORATORY_SCIENCE AP 10 2 BIOLOGY_LAB),
    (''CHEM'', mk_course ''CHEM'' ''Chemistry'' LABORATORY_SCIENCE REGULAR 10 2 CHEMISTRY_LAB),
    (''CHEM-AP'', mk_course ''CHEM-AP'' ''AP Chemistry'' LABORATORY_SCIENCE AP 10 2 CHEMISTRY_LAB),
    (''PHYS'', mk_course ''PHYS'' ''Physics'' LABORATORY_SCIENCE REGULAR 10 2 BIOLOGY_LAB),
    (''PHYS-AP-1'', mk_course ''PHYS-AP-1'' ''AP Physics 1'' LABORATORY_SCIENCE AP 10 2 BIOLOGY_LAB),
    (''PHYS-AP-C'', mk_course ''PHYS-AP-C'' ''AP Physics C'' LABORATORY_SCIENCE AP 10 2 BIOLOGY_LAB),
    (''ENVSCI-AP'', mk_course ''ENVSCI-AP'' ''AP Environmental Science'' LABORATORY_SCIENCE AP 10 2 BIOLOGY_LAB),
    (''ARAB1'', mk_course ''ARAB1'' ''Arabic 1'' LANGUAGE_OTHER REGULAR 10 2 GENERAL),
    (''ARAB2'', mk_course ''ARAB2'' ''Arabic 2'' LANGUAGE_OTHER REGULAR 10 2 GENERAL),
    (''ARAB3'', mk_course ''ARAB3'' ''Arabic 3'' LANGUAGE_OTHER REGULAR 10 2 GENERAL),
    (''ARAB4'', mk_course ''ARAB4'' ''Arabic 4'' LANGUAGE_OTHER REGULAR 10 2 GENERAL),
    (''ART1'', mk_course ''ART1'' ''Art 1'' VISUAL_PERFORMING_ARTS REGULAR 10 2 GENERAL),
    (''ART2'', mk_course ''ART2'' ''Art 2'' VISUAL_PERFORMING_ARTS REGULAR 10 2 GENERAL),
    (''MUSIC1'', mk_course ''MUSIC1'' ''Music'' VISUAL_PERFORMING_ARTS REGULAR 10 2 GENERAL),
    (''CSP-AP'', mk_course ''CSP-AP'' ''AP Computer Science Principles'' COLLEGE_PREP_ELECTIVE AP 10 2 COMPUTER_LAB),
    (''CSA-AP'', mk_course ''CSA-AP'' ''AP Computer Science A'' COLLEGE_PREP_ELECTIVE AP 10 2 COMPUTER_LAB),
    (''ROBOTICS'', mk_course ''ROBOTICS'' ''Robotics'' COLLEGE_PREP_ELECTIVE REGULAR 10 2 ROBOTICS_LAB),
    (''ROBOTICS-ADV'', mk_course ''ROBOTICS-ADV'' ''Advanced Robotics'' COLLEGE_PREP_ELECTIVE REGULAR 10 2 ROBOTICS_LAB),
    (''PSYCH-AP'', mk_course ''PSYCH-AP'' ''AP Psychology'' COLLEGE_PREP_ELECTIVE AP 10 2 GENERAL),
    (''PE9'', mk_course ''PE9'' ''Physical Education 9'' PHYSICAL_EDUCATION REGULAR 10 2 GYM),
    (''PE10'', mk_course ''PE10'' ''Physical Education 10'' PHYSICAL_EDUCATION REGULAR 10 2 GYM),
    (''ISLAM1'', mk_course ''ISLAM1'' ''Islamic Studies 1'' RELIGIOUS_STUDIES REGULAR 10 2 GENERAL),
    (''ISLAM2'', mk_course ''ISLAM2'' ''Islamic Studies 2'' RELIGIOUS_STUDIES REGULAR 10 2 GENERAL),
    (''ISLAM3'', mk_course ''ISLAM3'' ''Islamic Studies 3'' RELIGIOUS_STUDIES REGULAR 10 2 GENERAL),
    (''ISLAM4'', mk_course ''ISLAM4'' ''Islamic Studies 4'' RELIGIOUS_STUDIES REGULAR 10 2 GENERAL),
    (''QURAN1'', mk_course ''QURAN1'' ''Quran Studies 1'' RELIGIOUS_STUDIES REGULAR 10 2 GENERAL),
    (''QURAN2'', mk_course ''QURAN2'' ''Quran Studies 2'' RELIGIOUS_STUDIES REGULAR 10 2 GENERAL),
    (''QURAN3'', mk_course ''QURAN3'' ''Quran Studies 3'' RELIGIOUS_STUDIES REGULAR 10 2 GENERAL),
    (''QURAN4'', mk_course ''QURAN4'' ''Quran Studies 4'' RELIGIOUS_STUDIES REGULAR 10 2 GENERAL)]"

definition create_minimum_path :: GraduationPathPlan where
  "create_minimum_path = \<lparr>path = MINIMUM, year_plans = [
      \<lparr>year = 1,
        semester1_courses = [''ENG9'', ''ALG1'', ''BIO'', ''ARAB1'', ''PE9'', ''REL1''],
        semester2_courses = [''ENG9'', ''ALG1'', ''BIO'', ''ARAB1'', ''PE9'', ''REL1'']\<rparr>,
      \<lparr>year = 2,
        semester1_courses = [''ENG10'', ''GEOM'', ''CHEM'', ''ARAB2'', ''PE10'', ''REL2''],
        semester2_courses = [''ENG10'', ''GEOM'', ''CHEM'', ''ARAB2'', ''PE10'', ''REL2'']\<rparr>,
      \<lparr>year = 3,
        semester1_courses = [''ENG11'', ''ALG2'', ''WHIST'', ''ART1'', ''ARAB3'', ''REL3''],
        semester2_courses = [''ENG11'', ''ALG2'', ''WHIST'', ''ART1'', ''ARAB3'', ''REL3'']\<rparr>,
      \<lparr>year = 4,
        semester1_courses = [''ENG12'', ''PRECALC'', ''USHIST'', ''GOVT'', ''ARAB4'', ''REL4''],
        semester2_courses = [''ENG12'', ''PRECALC'', ''USHIST'', ''ECON'', ''ARAB4'', ''REL4'']\<rparr>]\<rparr>"

definition create_premed_path :: GraduationPathPlan where
  "create_premed_path = \<lparr>path = PRE_MED, year_plans = [
      \<lparr>year = 1,
        semester1_courses = [''ENG9'', ''ALG1'', ''BIO'', ''ARAB1'', ''PE9'', ''REL1''],
        semester2_courses = [''ENG9'', ''ALG1'', ''BIO'', ''ARAB1'', ''PE9'', ''REL1'']\<rparr>,
      \<lparr>year = 2,
        semester1_courses = [''ENG10'', ''GEOM'', ''CHEM'', ''WHIST'', ''ARAB2'', ''REL2''],
        semester2_courses = [''ENG10'', ''GEOM'', ''CHEM'', ''WHIST'', ''PE10'', ''REL2'']\<rparr>,
      \<lparr>year = 3,
        semester1_courses = [''ENG11-AP'', ''ALG2'', ''BIO-AP'', ''USHIST'', ''ART1'', ''REL3''],
        semester2_courses = [''ENG11-AP'', ''ALG2'', ''BIO-AP'', ''USHIST'', ''ART1'', ''REL3'']\<rparr>,
      \<lparr>year = 4,
        semester1_courses = [''ENG12-AP'', ''CALC-AP-AB'', ''CHEM-AP'', ''PSYCH-AP'', ''GOVT'', ''REL4''],
        semester2_courses = [''ENG12-AP'', ''CALC-AP-AB'', ''CHEM-AP'', ''PSYCH-AP'', ''ECON'', ''REL4'']\<rparr>]\<rparr>"

definition create_engineering_path :: GraduationPathPlan where
  "create_engineering_path = \<lparr>path = ENGINEERING, year_plans = [
      \<lparr>year = 1,
        semester1_courses = [''ENG9'', ''ALG1'', ''BIO'', ''CSP-AP'', ''PE9'', ''REL1''],
        semester2_courses = [''ENG9'', ''ALG1'', ''BIO'', ''CSP-AP'', ''PE9'', ''REL1'']\<rparr>,
      \<lparr>year = 2,
        semester1_courses = [''ENG10'', ''GEOM'', ''CHEM'', ''CSA-AP'', ''ARAB1'', ''REL2''],
        semester2_courses = [''ENG10'', ''GEOM'', ''CHEM'', ''CSA-AP'', ''PE10'', ''REL2'']\<rparr>,
      \<lparr>year = 3,
        semester1_courses = [''ENG11'', ''ALG2'', ''PHYS-AP-1'', ''ROBOTICS'', ''ARAB2'', ''REL3''],
        semester2_courses = [''ENG11'', ''ALG2'', ''PHYS-AP-1'', ''ROBOTICS'', ''WHIST'', ''REL3'']\<rparr>,
      \<lparr>year = 4,
        semester1_courses = [''ENG12'', ''CALC-AP-AB'', ''CHEM-AP'', ''ROBOTICS-ADV'', ''GOVT'', ''REL4''],
        semester2_courses = [''ENG12'', ''CALC-AP-AB'', ''CHEM-AP'', ''USHIST'', ''ECON'', ''REL4'']\<rparr>]\<rparr>"

fun repo_paths :: "GraduationPath \<Rightarrow> GraduationPathPlan" where
  "repo_paths MINIMUM = create_minimum_path"
| "repo_paths PRE_MED = create_premed_path"
| "repo_paths ENGINEERING = create_engineering_path"

text \<open>
  The repository's environment, for a given enumeration order of sets. \<open>remdups_first\<close>
  is one such order (first occurrences, left to right).
\<close>

definition repo_env :: "(string list \<Rightarrow> string list) \<Rightarrow> env" where
  "repo_env f =
     \<lparr>COURSE_CATALOG = map_of create_course_catalog, get_all_paths = repo_paths,
      list_of_set = f\<rparr>"

definition remdups_first :: "string list \<Rightarrow> string list" where
  "remdups_first xs = rev (remdups (rev xs))"

section \<open>Resource calculator (resource_calculator.py)\<close>

text \<open>
  \<open>students_per_path\<close> is a dict, listed in its insertion order. Course tables are the
  nested dicts \<open>{course_code: {year: n}}\<close>.
\<close>

type_synonym year_counts = "(int \<times> int) list"
type_synonym course_table = "(string \<times> year_counts) list"

record ResourceCalculator =
  students_per_path :: "(GraduationPath \<times> int) list"
  max_class_size :: int
  periods_per_day :: int
  paths :: "GraduationPath \<Rightarrow> GraduationPathPlan"

definition ResourceCalculator_init ::
  "env \<Rightarrow> (GraduationPath \<times> int) list \<Rightarrow> int \<Rightarrow> int \<Rightarrow> ResourceCalculator" where
  "ResourceCalculator_init e spp mcs ppd =
     \<lparr>students_per_path = spp, max_class_size = mcs, periods_per_day = ppd,
      paths = get_all_paths e\<rparr>"

text \<open>\<open>course_demand[code][year] += num_students\<close> on the nested \<open>defaultdict\<close>.\<close>

definition add_demand :: "string \<Rightarrow> int \<Rightarrow> int \<Rightarrow> course_table \<Rightarrow> course_table" where
  "add_demand c y n d =
     (let inner = get_default d c []
      in AList.update c (AList.update y (get_default inner y 0 + n) inner) d)"

definition demand_of_year_plan :: "env \<Rightarrow> int \<Rightarrow> YearPlan \<Rightarrow> course_table \<Rightarrow> course_table" where
  "demand_of_year_plan e n yp d = fold (\<lambda>c. add_demand c (year yp) n) (get_all_courses e yp) d"

definition demand_of_path ::
  "env \<Rightarrow> ResourceCalculator \<Rightarrow> GraduationPath \<times> int \<Rightarrow> course_table \<Rightarrow> course_table" where
  "demand_of_path e self pn d =
     fold (demand_of_year_plan e (snd pn)) (year_plans (paths self (fst pn))) d"

definition course_demand :: "env \<Rightarrow> ResourceCalculator \<Rightarrow> course_table" where
  "course_demand e self = fold (demand_of_path e self) (students_per_path self) []"

text \<open>\<open>sections_needed[code][year] = math.ceil(num_students / self.max_class_size)\<close>.\<close>

definition set_sections :: "string \<Rightarrow> int \<Rightarrow> int \<Rightarrow> course_table \<Rightarrow> course_table" where
  "set_sections c y v sn = AList.update c (AList.update y v (get_default sn c [])) sn"

fun sections_of_years ::
  "int \<Rightarrow> string \<Rightarrow> year_counts \<Rightarrow> course_table \<Rightarrow> error + course_table" where
  "sections_of_years m c [] sn = Inr sn"
| "sections_of_years m c ((y, n) # rest) sn =
     (case math_ceil_div n m of
        Inl err \<Rightarrow> Inl err
      | Inr v \<Rightarrow> sections_of_years m c rest (set_sections c y v sn))"

fun sections_of_courses :: "int \<Rightarrow> course_table \<Rightarrow> course_table \<Rightarrow> error + course_table" where
  "sections_of_courses m [] sn = Inr sn"
| "sections_of_courses m ((c, year_demands) # rest) sn =
     (case sections_of_years m c year_demands sn of
        Inl err \<Rightarrow> Inl err
      | Inr sn' \<Rightarrow> sections_of_courses m rest sn')"

definition calculate_sections_needed :: "env \<Rightarrow> ResourceCalculator \<Rightarrow> error + course_table" where
  "calculate_sections_needed e self =
     sections_of_courses (max_class_size self) (course_demand e self) []"

text \<open>
  \<open>calculate_min_classrooms\<close>: sections per room type over the catalogued courses, then
  \<open>math.ceil(total_sections / self.periods_per_day)\<close> per room type.
\<close>

definition add_room_sections ::
  "env \<Rightarrow> string \<times> year_counts \<Rightarrow> (RoomType \<times> int) list \<Rightarrow> (RoomType \<times> int) list" where
  "add_room_sections e cy d =
     (case COURSE_CATALOG e (fst cy) of
        None \<Rightarrow> d
      | Some course \<Rightarrow>
          AList.update (room_type_required course)
            (get_default d (room_type_required course) 0 + sum_values (snd cy)) d)"

definition room_type_sections :: "env \<Rightarrow> course_table \<Rightarrow> (RoomType \<times> int) list" where
  "room_type_sections e sn = fold (add_room_sections e) sn []"

fun min_rooms_loop ::
  "int \<Rightarrow> (RoomType \<times> int) list \<Rightarrow> (RoomType \<times> int) list \<Rightarrow> error + (RoomType \<times> int) list" where
  "min_rooms_loop ppd [] min_rooms = Inr min_rooms"
| "min_rooms_loop ppd ((rt, total_sections) # rest) min_rooms =
     (case math_ceil_div total_sections ppd of
        Inl err \<Rightarrow> Inl err
      | Inr v \<Rightarrow> min_rooms_loop ppd rest (AList.update rt v min_rooms))"

definition min_classrooms_of :: "env \<Rightarrow> int \<Rightarrow> course_table \<Rightarrow> error + (RoomType \<times> int) list" where
  "min_classrooms_of e ppd sn = min_rooms_loop ppd (room_type_sections e sn) []"

definition calculate_min_classrooms ::
  "env \<Rightarrow> ResourceCalculator \<Rightarrow> error + (RoomType \<times> int) list" where
  "calculate_min_classrooms e self =
     (case calculate_sections_needed e self of
        Inl err \<Rightarrow> Inl err
      | Inr sections_needed \<Rightarrow> min_classrooms_of e (periods_per_day self) sections_needed)"

text \<open>
  \<open>calculate_min_teachers\<close>. The inner dicts \<open>{"regular": _, "ap": _}\<close> and
  \<open>{"ap_qualified": _, "regular_only": _, "total": _}\<close> have fixed keys and are records.
\<close>

record level_counts =
  regular :: int
  ap :: int

record teacher_need =
  ap_qualified :: int
  regular_only :: int
  total_count :: int

definition add_subject_sections ::
  "env \<Rightarrow> string \<times> year_counts \<Rightarrow> (SubjectArea \<times> level_counts) list
     \<Rightarrow> (SubjectArea \<times> level_counts) list" where
  "add_subject_sections e cy d =
     (case COURSE_CATALOG e (fst cy) of
        None \<Rightarrow> d
      | Some course \<Rightarrow>
          (let total_sections = sum_values (snd cy);
               cur = get_default d (subject_area course) \<lparr>regular = 0, ap = 0\<rparr>
           in AList.update (subject_area course)
                (if level course = AP then cur\<lparr>ap := ap cur + total_sections\<rparr>
                 else cur\<lparr>regular := regular cur + total_sections\<rparr>) d))"

definition subject_sections :: "env \<Rightarrow> course_table \<Rightarrow> (SubjectArea \<times> level_counts) list" where
  "subject_sections e sn = fold (add_subject_sections e) sn []"

definition teachers_for :: "int \<Rightarrow> level_counts \<Rightarrow> error + teacher_need" where
  "teachers_for max_teaching_periods levels =
     (case math_ceil_div (ap levels) max_teaching_periods of
        Inl err \<Rightarrow> Inl err
      | Inr ap_teachers \<Rightarrow>
          (let ap_teacher_capacity = ap_teachers * max_teaching_periods - ap levels;
               remaining_regular = max 0 (regular levels - ap_teacher_capacity)
           in case math_ceil_div remaining_regular max_teaching_periods of
                Inl err \<Rightarrow> Inl err
              | Inr regular_teachers \<Rightarrow>
                  Inr \<lparr>ap_qualified = ap_teachers, regular_only = regular_teachers,
                       total_count = ap_teachers + regular_teachers\<rparr>))"

fun min_teachers_loop ::
  "int \<Rightarrow> (SubjectArea \<times> level_counts) list \<Rightarrow> (SubjectArea \<times> teacher_need) list
     \<Rightarrow> error + (SubjectArea \<times> teacher_need) list" where
  "min_teachers_loop cap [] min_teachers = Inr min_teachers"
| "min_teachers_loop cap ((subject, levels) # rest) min_teachers =
     (case teachers_for cap levels of
        Inl err \<Rightarrow> Inl err
      | Inr need \<Rightarrow> min_teachers_loop cap rest (AList.update subject need min_teachers))"

definition min_teachers_of ::
  "env \<Rightarrow> int \<Rightarrow> course_table \<Rightarrow> error + (SubjectArea \<times> teacher_need) list" where
  "min_teachers_of e ppd sn = min_teachers_loop (ppd - 1) (subject_sections e sn) []"

definition calculate_min_teachers ::
  "env \<Rightarrow> ResourceCalculator \<Rightarrow> error + (SubjectArea \<times> teacher_need) list" where
  "calculate_min_teachers e self =
     (case calculate_sections_needed e self of
        Inl err \<Rightarrow> Inl err
      | Inr sections_needed \<Rightarrow> min_teachers_of e (periods_per_day self) sections_needed)"

section \<open>Master schedule and validator (scheduler.py)\<close>

record ScheduledSection =
  course_code :: string
  section_id :: int
  period :: int
  semester :: int
  classroom_id :: string
  teacher_id :: string
  student_ids :: "string list"

record MasterSchedule =
  sections :: "ScheduledSection list"
  classrooms :: "Classroom list"
  teachers :: "Teacher list"

text \<open>The property \<open>ScheduledSection.course\<close>: \<open>COURSE_CATALOG[self.course_code]\<close>.\<close>

definition course :: "env \<Rightarrow> ScheduledSection \<Rightarrow> error + Course" where
  "course e self =
     (case COURSE_CATALOG e (course_code self) of
        None \<Rightarrow> Inl (KeyError (course_code self))
      | Some c \<Rightarrow> Inr c)"

definition get_sections_by_period :: "MasterSchedule \<Rightarrow> int \<Rightarrow> int \<Rightarrow> ScheduledSection list" where
  "get_sections_by_period self p sem =
     filter (\<lambda>s. period s = p \<and> semester s = sem) (sections self)"

text \<open>A \<open>for\<close> loop whose body may raise, over an accumulated value.\<close>

fun fold_err :: "('a \<Rightarrow> 's \<Rightarrow> error + 's) \<Rightarrow> 'a list \<Rightarrow> 's \<Rightarrow> error + 's" where
  "fold_err f [] acc = Inr acc"
| "fold_err f (x # xs) acc =
     (case f x acc of Inl err \<Rightarrow> Inl err | Inr acc' \<Rightarrow> fold_err f xs acc')"

text \<open>
  A conflict message, by the values its f-string interpolates: the resource id, the
  period, the semester and the course names.
\<close>

datatype conflict =
    Classroom_conflict string int int "string list"
  | Teacher_conflict string int int "string list"

text \<open>\<open>used[key(section)].append(section)\<close> over a \<open>defaultdict(list)\<close>.\<close>

definition group_by :: "('a \<Rightarrow> 'k) \<Rightarrow> 'a list \<Rightarrow> ('k \<times> 'a list) list" where
  "group_by key xs = fold (\<lambda>s d. AList.update (key s) (get_default d (key s) [] @ [s]) d) xs []"

text \<open>\<open>[s.course.name for s in ...]\<close>, which raises on a code outside the catalog.\<close>

fun course_names :: "env \<Rightarrow> ScheduledSection list \<Rightarrow> error + string list" where
  "course_names e [] = Inr []"
| "course_names e (s # ss) =
     (case course e s of
        Inl err \<Rightarrow> Inl err
      | Inr c \<Rightarrow>
          (case course_names e ss of
             Inl err \<Rightarrow> Inl err
           | Inr ns \<Rightarrow> Inr (course_name c # ns)))"

definition conflict_check ::
  "env \<Rightarrow> (string \<Rightarrow> string list \<Rightarrow> conflict) \<Rightarrow> string \<times> ScheduledSection list
     \<Rightarrow> conflict list \<Rightarrow> error + conflict list" where
  "conflict_check e mk entry errors =
     (if length (snd entry) > 1 then
        (case course_names e (snd entry) of
           Inl err \<Rightarrow> Inl err
         | Inr courses \<Rightarrow> Inr (errors @ [mk (fst entry) courses]))
      else Inr errors)"

definition validate_period ::
  "env \<Rightarrow> MasterSchedule \<Rightarrow> int \<Rightarrow> int \<Rightarrow> conflict list \<Rightarrow> error + conflict list" where
  "validate_period e self sem p errors =
     (let secs = get_sections_by_period self p sem
      in case fold_err (conflict_check e (\<lambda>i cs. Classroom_conflict i p sem cs))
                (group_by classroom_id secs) errors of
           Inl err \<Rightarrow> Inl err
         | Inr errors' \<Rightarrow>
             fold_err (conflict_check e (\<lambda>i cs. Teacher_conflict i p sem cs))
               (group_by teacher_id secs) errors')"

text \<open>The periods are \<open>range(1, 7)\<close> and the semesters \<open>[1, 2]\<close>.\<close>

definition validate :: "env \<Rightarrow> MasterSchedule \<Rightarrow> error + conflict list" where
  "validate e self =
     fold_err (\<lambda>sem. fold_err (validate_period e self sem) [1..6]) [1, 2] []"

section \<open>Scheduler (scheduler.py)\<close>

record Scheduler =
  sched_students_per_path :: "(GraduationPath \<times> int) list"
  sched_max_class_size :: int
  sched_periods_per_day :: int
  sched_paths :: "GraduationPath \<Rightarrow> GraduationPathPlan"
  calculator :: ResourceCalculator

definition Scheduler_init ::
  "env \<Rightarrow> (GraduationPath \<times> int) list \<Rightarrow> int \<Rightarrow> int \<Rightarrow> Scheduler" where
  "Scheduler_init e spp mcs ppd =
     \<lparr>sched_students_per_path = spp, sched_max_class_size = mcs, sched_periods_per_day = ppd,
      sched_paths = get_all_paths e, calculator = ResourceCalculator_init e spp mcs ppd\<rparr>"

definition room_names :: "(RoomType \<times> string) list" where
  "room_names =
     [(GENERAL, ''Room''), (CHEMISTRY_LAB, ''Chem Lab''), (BIOLOGY_LAB, ''Bio Lab''),
      (COMPUTER_LAB, ''Computer Lab''), (ROBOTICS_LAB, ''Robotics Lab''),
      (ART_ROOM, ''Art Room''), (GYM, ''Gymnasium''), (MUSIC_ROOM, ''Music Room'')]"

definition make_classroom :: "int \<Rightarrow> RoomType \<Rightarrow> int \<Rightarrow> Classroom" where
  "make_classroom mcs rt i =
     \<lparr>classroom_ident = RoomType_name rt @ ''_'' @ str_int i,
      classroom_name = get_default room_names rt (RoomType_name rt) @ '' '' @ str_int i,
      room_type = rt, capacity = mcs\<rparr>"

definition classrooms_of :: "int \<Rightarrow> (RoomType \<times> int) list \<Rightarrow> Classroom list" where
  "classrooms_of mcs min_rooms =
     concat (map (\<lambda>rc. map (make_classroom mcs (fst rc)) [1..snd rc]) min_rooms)"

definition create_classrooms :: "env \<Rightarrow> Scheduler \<Rightarrow> error + Classroom list" where
  "create_classrooms e self =
     (case calculate_min_classrooms e (calculator self) of
        Inl err \<Rightarrow> Inl err
      | Inr min_rooms \<Rightarrow> Inr (classrooms_of (sched_max_class_size self) min_rooms))"

definition subject_abbrev :: "(SubjectArea \<times> string) list" where
  "subject_abbrev =
     [(HISTORY_SOCIAL_SCIENCE, ''HIST''), (ENGLISH, ''ENG''), (MATHEMATICS, ''MATH''),
      (LABORATORY_SCIENCE, ''SCI''), (LANGUAGE_OTHER, ''ARAB''),
      (VISUAL_PERFORMING_ARTS, ''ART''), (COLLEGE_PREP_ELECTIVE, ''TECH''),
      (PHYSICAL_EDUCATION, ''PE''), (RELIGIOUS_STUDIES, ''REL'')]"

definition make_ap_teacher :: "int \<Rightarrow> SubjectArea \<Rightarrow> string \<Rightarrow> int \<Rightarrow> Teacher" where
  "make_ap_teacher ppd subject abbrev i =
     \<lparr>teacher_ident = abbrev @ ''_AP_'' @ str_int i,
      teacher_name = abbrev @ '' Teacher '' @ str_int i @ '' (AP)'',
      subject_areas = [subject], can_teach_ap = True, max_periods_per_day = ppd - 1\<rparr>"

definition make_regular_teacher ::
  "int \<Rightarrow> SubjectArea \<Rightarrow> string \<Rightarrow> teacher_need \<Rightarrow> int \<Rightarrow> Teacher" where
  "make_regular_teacher ppd subject abbrev info i =
     \<lparr>teacher_ident = abbrev @ ''_REG_'' @ str_int i,
      teacher_name = abbrev @ '' Teacher '' @ str_int (i + ap_qualified info),
      subject_areas = [subject], can_teach_ap = False, max_periods_per_day = ppd - 1\<rparr>"

definition teachers_of_subject :: "int \<Rightarrow> SubjectArea \<times> teacher_need \<Rightarrow> Teacher list" where
  "teachers_of_subject ppd si =
     (let abbrev = get_default subject_abbrev (fst si) (take 4 (SubjectArea_name (fst si)))
      in map (make_ap_teacher ppd (fst si) abbrev) [1..ap_qualified (snd si)]
         @ map (make_regular_teacher ppd (fst si) abbrev (snd si)) [1..regular_only (snd si)])"

definition create_teachers :: "env \<Rightarrow> Scheduler \<Rightarrow> error + Teacher list" where
  "create_teachers e self =
     (case calculate_min_teachers e (calculator self) of
        Inl err \<Rightarrow> Inl err
      | Inr min_teachers \<Rightarrow>
          Inr (concat (map (teachers_of_subject (sched_periods_per_day self)) min_teachers)))"

subsection \<open>Placement\<close>

text \<open>
  The local variables of \<open>create_schedule\<close> that the loops update, and the lines it
  prints.

  The nested availability dicts are indexed \<open>[semester][period][id]\<close> and hold \<open>True\<close>
  at every key when they are built. Every read is at a semester in \<open>[1, 2]\<close>, a period in
  \<open>range(1, periods_per_day + 1)\<close> and an id of the pool, all keys of the dicts, so a
  read never raises: a table is a total function of the three indices, initially \<open>True\<close>.
  \<open>teacher_sections\<close> is a \<open>defaultdict(int)\<close>, a total function initially \<open>0\<close>.
\<close>

record sched_state =
  classroom_available :: "int \<times> int \<times> string \<Rightarrow> bool"
  teacher_available :: "int \<times> int \<times> string \<Rightarrow> bool"
  teacher_sections :: "string \<Rightarrow> int"
  scheduled_sections :: "ScheduledSection list"
  section_counter :: int
  printed :: "string list"

definition initial_state :: sched_state where
  "initial_state =
     \<lparr>classroom_available = (\<lambda>k. True), teacher_available = (\<lambda>k. True),
      teacher_sections = (\<lambda>k. 0), scheduled_sections = [], section_counter = 0,
      printed = []\<rparr>"

definition course_priority :: "env \<Rightarrow> string \<Rightarrow> int" where
  "course_priority e c =
     (case COURSE_CATALOG e c of
        None \<Rightarrow> 0
      | Some crs \<Rightarrow>
          - ((if level crs = AP then 100 else 0)
             + (if room_type_required crs \<noteq> GENERAL then 50 else 0)))"

text \<open>
  \<open>sorted(xs, key=f)\<close> computes the key of each element once and sorts the elements by
  it, stably.
\<close>

definition py_sorted :: "('a \<Rightarrow> int) \<Rightarrow> 'a list \<Rightarrow> 'a list" where
  "py_sorted f xs = map snd (sort_key fst (map (\<lambda>x. (f x, x)) xs))"

definition sorted_courses :: "env \<Rightarrow> course_table \<Rightarrow> string list" where
  "sorted_courses e sections_needed = py_sorted (course_priority e) (map fst sections_needed)"

text \<open>
  The two searches \<open>for room in compatible_rooms\<close> and
  \<open>for teacher in compatible_teachers\<close>, each left at the first hit.
\<close>

fun find_room :: "sched_state \<Rightarrow> int \<Rightarrow> int \<Rightarrow> Classroom list \<Rightarrow> Classroom option" where
  "find_room st sem p [] = None"
| "find_room st sem p (room # rooms) =
     (if classroom_available st (sem, p, classroom_ident room) then Some room
      else find_room st sem p rooms)"

fun find_teacher :: "sched_state \<Rightarrow> int \<Rightarrow> int \<Rightarrow> Teacher list \<Rightarrow> Teacher option" where
  "find_teacher st sem p [] = None"
| "find_teacher st sem p (teacher # ts) =
     (if teacher_available st (sem, p, teacher_ident teacher)
         \<and> teacher_sections st (teacher_ident teacher) < max_periods_per_day teacher * 2
      then Some teacher
      else find_teacher st sem p ts)"

definition place_section ::
  "string \<Rightarrow> int \<Rightarrow> int \<Rightarrow> Classroom \<Rightarrow> Teacher \<Rightarrow> sched_state \<Rightarrow> sched_state" where
  "place_section c sem p room teacher st =
     st\<lparr>section_counter := section_counter st + 1,
        scheduled_sections := scheduled_sections st @
          [\<lparr>course_code = c, section_id = section_counter st + 1, period = p, semester = sem,
            classroom_id = classroom_ident room, teacher_id = teacher_ident teacher,
            student_ids = []\<rparr>],
        classroom_available := (classroom_available st)((sem, p, classroom_ident room) := False),
        teacher_available := (teacher_available st)((sem, p, teacher_ident teacher) := False),
        teacher_sections := (teacher_sections st)
          (teacher_ident teacher := teacher_sections st (teacher_ident teacher) + 1)\<rparr>"

text \<open>The mirror of a year-long course into semester 2, after its semester-1 placement.\<close>

definition mirror_section ::
  "Course \<Rightarrow> string \<Rightarrow> int \<Rightarrow> int \<Rightarrow> Classroom \<Rightarrow> Teacher \<Rightarrow> sched_state \<Rightarrow> sched_state" where
  "mirror_section crs c sem p room teacher st =
     (if semesters crs = 2 \<and> sem = 1 then
        (if classroom_available st (2, p, classroom_ident room)
            \<and> teacher_available st (2, p, teacher_ident teacher) then
           st\<lparr>scheduled_sections := scheduled_sections st @
                [\<lparr>course_code = c, section_id = section_counter st, period = p, semester = 2,
                  classroom_id = classroom_ident room, teacher_id = teacher_ident teacher,
                  student_ids = []\<rparr>],
              classroom_available := (classroom_available st)((2, p, classroom_ident room) := False),
              teacher_available := (teacher_available st)((2, p, teacher_ident teacher) := False)\<rparr>
         else st)
      else st)"

text \<open>
  The loop over the periods of one semester, on the pair of the flag \<open>scheduled\<close> and the
  state: \<open>break\<close> when the flag is set, \<open>continue\<close> when no room or no teacher is free.
\<close>

fun period_loop ::
  "Course \<Rightarrow> string \<Rightarrow> Classroom list \<Rightarrow> Teacher list \<Rightarrow> int \<Rightarrow> int list
     \<Rightarrow> bool \<times> sched_state \<Rightarrow> bool \<times> sched_state" where
  "period_loop crs c rooms ts sem [] (scheduled, st) = (scheduled, st)"
| "period_loop crs c rooms ts sem (p # ps) (scheduled, st) =
     (if scheduled then (scheduled, st)
      else case find_room st sem p rooms of
             None \<Rightarrow> period_loop crs c rooms ts sem ps (scheduled, st)
           | Some room \<Rightarrow>
               (case find_teacher st sem p ts of
                  None \<Rightarrow> period_loop crs c rooms ts sem ps (scheduled, st)
                | Some teacher \<Rightarrow>
                    period_loop crs c rooms ts sem ps
                      (True, mirror_section crs c sem p room teacher
                               (place_section c sem p room teacher st))))"

definition semesters_to_schedule :: "Course \<Rightarrow> int list" where
  "semesters_to_schedule crs = (if semesters crs = 2 then [1, 2] else [1])"

text \<open>One iteration of \<open>for section_num in range(total_sections)\<close>.\<close>

definition schedule_unit ::
  "Course \<Rightarrow> string \<Rightarrow> Classroom list \<Rightarrow> Teacher list \<Rightarrow> int \<Rightarrow> sched_state \<Rightarrow> sched_state" where
  "schedule_unit crs c rooms ts ppd st =
     (case fold (\<lambda>sem. period_loop crs c rooms ts sem [1..ppd]) (semesters_to_schedule crs)
             (False, st) of
        (scheduled, st') \<Rightarrow>
          (if \<not> scheduled then
             st'\<lparr>printed := printed st' @
                   [''WARNING: Could not schedule section of '' @ course_name crs]\<rparr>
           else st'))"

text \<open>
  One iteration of \<open>for course_code in sorted_courses\<close>. \<open>sections_needed[course_code]\<close>
  reads a key of \<open>sections_needed\<close>, so it is present.
\<close>

definition schedule_course ::
  "env \<Rightarrow> int \<Rightarrow> Classroom list \<Rightarrow> Teacher list \<Rightarrow> course_table \<Rightarrow> string \<Rightarrow> sched_state
     \<Rightarrow> sched_state" where
  "schedule_course e ppd cls tchs sections_needed c st =
     (case COURSE_CATALOG e c of
        None \<Rightarrow> st
      | Some crs \<Rightarrow>
          (let total_sections = sum_values (get_default sections_needed c []);
               compatible_rooms = filter (\<lambda>r. can_host r crs) cls;
               compatible_teachers = filter (\<lambda>t. can_teach t crs) tchs
           in fold (\<lambda>section_num. schedule_unit crs c compatible_rooms compatible_teachers ppd)
                [0..<nat total_sections] st))"

text \<open>
  \<open>create_schedule\<close> returns the \<open>MasterSchedule\<close>; the second component is what it
  has printed to standard output.
\<close>

definition create_schedule :: "env \<Rightarrow> Scheduler \<Rightarrow> error + MasterSchedule \<times> string list" where
  "create_schedule e self =
     (case create_classrooms e self of
        Inl err \<Rightarrow> Inl err
      | Inr cls \<Rightarrow>
          (case create_teachers e self of
             Inl err \<Rightarrow> Inl err
           | Inr tchs \<Rightarrow>
               (case calculate_sections_needed e (calculator self) of
                  Inl err \<Rightarrow> Inl err
                | Inr sections_needed \<Rightarrow>
                    (let st = fold (schedule_course e (sched_periods_per_day self) cls tchs
                                      sections_needed)
                                (sorted_courses e sections_needed) initial_state
                     in Inr (\<lparr>sections = scheduled_sections st, classrooms = cls,
                               teachers = tchs\<rparr>, printed st)))))"

section \<open>Notions used by the properties\<close>

text \<open>
  The two effects one iteration of the section loop can have on the state: a placement
  (the section, marked resources and counters, then the semester-2 mirror) or the warning.
\<close>

definition placed ::
  "Course \<Rightarrow> string \<Rightarrow> int \<Rightarrow> int \<Rightarrow> Classroom \<Rightarrow> Teacher \<Rightarrow> sched_state \<Rightarrow> sched_state" where
  "placed crs c sem p room teacher st =
     mirror_section crs c sem p room teacher (place_section c sem p room teacher st)"

definition warned :: "Course \<Rightarrow> sched_state \<Rightarrow> sched_state" where
  "warned crs st =
     st\<lparr>printed := printed st @ [''WARNING: Could not schedule section of '' @ course_name crs]\<rparr>"

definition slot_free :: "sched_state \<Rightarrow> int \<Rightarrow> int \<Rightarrow> Classroom \<Rightarrow> Teacher \<Rightarrow> bool" where
  "slot_free st sem p room teacher =
     (classroom_available st (sem, p, classroom_ident room)
      \<and> teacher_available st (sem, p, teacher_ident teacher))"

text \<open>The slot a section occupies in its classroom's and in its teacher's timetable.\<close>

definition room_slot :: "ScheduledSection \<Rightarrow> string \<times> int \<times> int" where
  "room_slot s = (classroom_id s, period s, semester s)"

definition teacher_slot :: "ScheduledSection \<Rightarrow> string \<times> int \<times> int" where
  "teacher_slot s = (teacher_id s, period s, semester s)"



text \<open>
  Sections are created for catalogued courses only, and a section outside semester 1
  belongs to a course of two semesters.
\<close>

definition semester_rule :: "env \<Rightarrow> sched_state \<Rightarrow> bool" where
  "semester_rule e st =
     (\<forall>s \<in> set (scheduled_sections st).
        \<exists>crs. COURSE_CATALOG e (course_code s) = Some crs
              \<and> (semesters crs = 2 \<or> semester s = 1))"






subsection \<open>Demand, in the words of the specification\<close>

text \<open>\<open>table[code][year]\<close> when both keys are present.\<close>

definition lookup2 :: "course_table \<Rightarrow> string \<Rightarrow> int \<Rightarrow> int option" where
  "lookup2 t c y = (case map_of t c of None \<Rightarrow> None | Some ys \<Rightarrow> map_of ys y)"








text \<open>An entry of a course table whose code is in the catalog.\<close>

definition known :: "env \<Rightarrow> string \<times> year_counts \<Rightarrow> bool" where
  "known e cy = (COURSE_CATALOG e (fst cy) \<noteq> None)"

subsection \<open>Minimum teachers, in the words of the specification\<close>






section \<open>Concrete inputs\<close>

text \<open>
  The repository's catalog and plans, with sets enumerated in order of first occurrence.
\<close>

definition demo_env :: env where
  "demo_env = repo_env remdups_first"

text \<open>The section table of 20 students on the minimum path with classes of 25.\<close>

definition minimum20_sections :: course_table where
  "minimum20_sections =
     [(''ENG9'', [(1, 1)]), (''ALG1'', [(1, 1)]), (''BIO'', [(1, 1)]), (''ARAB1'', [(1, 1)]),
     (''PE9'', [(1, 1)]), (''REL1'', [(1, 1)]), (''ENG10'', [(2, 1)]), (''GEOM'', [(2, 1)]),
     (''CHEM'', [(2, 1)]), (''ARAB2'', [(2, 1)]), (''PE10'', [(2, 1)]), (''REL2'', [(2, 1)]),
     (''ENG11'', [(3, 1)]), (''ALG2'', [(3, 1)]), (''WHIST'', [(3, 1)]), (''ART1'', [(3, 1)]),
     (''ARAB3'', [(3, 1)]), (''REL3'', [(3, 1)]), (''ENG12'', [(4, 1)]), (''PRECALC'', [(4,
     1)]), (''USHIST'', [(4, 1)]), (''GOVT'', [(4, 1)]), (''ARAB4'', [(4, 1)]), (''REL4'', [(4,
     1)]), (''ECON'', [(4, 1)])]"



definition minimum20_order :: "string list" where
  "minimum20_order =
     [''BIO'', ''PE9'', ''CHEM'', ''PE10'', ''ENG9'', ''ALG1'', ''ARAB1'', ''REL1'', ''ENG10'',
     ''GEOM'', ''ARAB2'', ''REL2'', ''ENG11'', ''ALG2'', ''WHIST'', ''ART1'', ''ARAB3'',
     ''REL3'', ''ENG12'', ''PRECALC'', ''USHIST'', ''GOVT'', ''ARAB4'', ''REL4'', ''ECON'']"

text \<open>The schedule of 20 students on the minimum path, classes of 25, three periods a day.\<close>

definition small_scheduler :: Scheduler where
  "small_scheduler = Scheduler_init demo_env [(MINIMUM, 20)] 25 3"

definition small_schedule :: MasterSchedule where
  "small_schedule =
     \<lparr>sections = [\<lparr>course_code = ''BIO'', section_id = 1, period = 1,
     semester = 1, classroom_id = ''BIOLOGY_LAB_1'', teacher_id = ''SCI_REG_1'',
     student_ids = []\<rparr>, \<lparr>course_code = ''BIO'', section_id = 1, period = 1,
     semester = 2, classroom_id = ''BIOLOGY_LAB_1'', teacher_id = ''SCI_REG_1'',
     student_ids = []\<rparr>, \<lparr>course_code = ''PE9'', section_id = 2, period = 1,
     semester = 1, classroom_id = ''GYM_1'', teacher_id = ''PE_REG_1'',
     student_ids = []\<rparr>, \<lparr>course_code = ''PE9'', section_id = 2, period = 1,
     semester = 2, classroom_id = ''GYM_1'', teacher_id = ''PE_REG_1'',
     student_ids = []\<rparr>, \<lparr>course_code = ''CHEM'', section_id = 3, period = 2,
     semester = 1, classroom_id = ''CHEMISTRY_LAB_1'', teacher_id = ''SCI_REG_1'',
     student_ids = []\<rparr>, \<lparr>course_code = ''CHEM'', section_id = 3, period = 2,
     semester = 2, classroom_id = ''CHEMISTRY_LAB_1'', teacher_id = ''SCI_REG_1'',
     student_ids = []\<rparr>, \<lparr>course_code = ''PE10'', section_id = 4, period = 2,
     semester = 1, classroom_id = ''GYM_1'', teacher_id = ''PE_REG_1'',
     student_ids = []\<rparr>, \<lparr>course_code = ''PE10'', section_id = 4, period = 2,
     semester = 2, classroom_id = ''GYM_1'', teacher_id = ''PE_REG_1'',
     student_ids = []\<rparr>, \<lparr>course_code = ''ENG9'', section_id = 5, period = 1,
     semester = 1, classroom_id = ''GENERAL_1'', teacher_id = ''ENG_REG_1'',
     student_ids = []\<rparr>, \<lparr>course_code = ''ENG9'', section_id = 5, period = 1,
     semester = 2, classroom_id = ''GENERAL_1'', teacher_id = ''ENG_REG_1'',
     student_ids = []\<rparr>, \<lparr>course_code = ''ALG1'', section_id = 6, period = 1,
     semester = 1, classroom_id = ''GENERAL_2'', teacher_id = ''MATH_REG_1'',
     student_ids = []\<rparr>, \<lparr>course_code = ''ALG1'', section_id = 6, period = 1,
     semester = 2, classroom_id = ''GENERAL_2'', teacher_id = ''MATH_REG_1'',
     student_ids = []\<rparr>, \<lparr>course_code = ''ARAB1'', section_id = 7, period = 1,
     semester = 1, classroom_id = ''GENERAL_3'', teacher_id = ''ARAB_REG_1'',
     student_ids = []\<rparr>, \<lparr>course_code = ''ARAB1'', section_id = 7, period = 1,
     semester = 2, classroom_id = ''GENERAL_3'', teacher_id = ''ARAB_REG_1'',
     student_ids = []\<rparr>, \<lparr>course_code = ''ENG10'', section_id = 8, period = 1,
     semester = 1, classroom_id = ''GENERAL_4'', teacher_id = ''ENG_REG_2'',
     student_ids = []\<rparr>, \<lparr>course_code = ''ENG10'', section_id = 8, period = 1,
     semester = 2, classroom_id = ''GENERAL_4'', teacher_id = ''ENG_REG_2'',
     student_ids = []\<rparr>, \<lparr>course_code = ''GEOM'', section_id = 9, period = 1,
     semester = 1, classroom_id = ''GENERAL_5'', teacher_id = ''MATH_REG_2'',
     student_ids = []\<rparr>, \<lparr>course_code = ''GEOM'', section_id = 9, period = 1,
     semester = 2, classroom_id = ''GENERAL_5'', teacher_id = ''MATH_REG_2'',
     student_ids = []\<rparr>, \<lparr>course_code = ''ARAB2'', section_id = 10, period = 1,
     semester = 1, classroom_id = ''GENERAL_6'', teacher_id = ''ARAB_REG_2'',
     student_ids = []\<rparr>, \<lparr>course_code = ''ARAB2'', section_id = 10, period = 1,
     semester = 2, classroom_id = ''GENERAL_6'', teacher_id = ''ARAB_REG_2'',
     student_ids = []\<rparr>, \<lparr>course_code = ''ENG11'', section_id = 11, period = 2,
     semester = 1, classroom_id = ''GENERAL_1'', teacher_id = ''ENG_REG_1'',
     student_ids = []\<rparr>, \<lparr>course_code = ''ENG11'', section_id = 11, period = 2,
     semester = 2, classroom_id = ''GENERAL_1'', teacher_id = ''ENG_REG_1'',
     student_ids = []\<rparr>, \<lparr>course_code = ''ALG2'', section_id = 12, period = 2,
     semester = 1, classroom_id = ''GENERAL_2'', teacher_id = ''MATH_REG_1'',
     student_ids = []\<rparr>, \<lparr>course_code = ''ALG2'', section_id = 12, period = 2,
     semester = 2, classroom_id = ''GENERAL_2'', teacher_id = ''MATH_REG_1'',
     student_ids = []\<rparr>, \<lparr>course_code = ''WHIST'', section_id = 13, period = 1,
     semester = 1, classroom_id = ''CHEMISTRY_LAB_1'', teacher_id = ''HIST_REG_1'',
     student_ids = []\<rparr>, \<lparr>course_code = ''WHIST'', section_id = 13, period = 1,
     semester = 2, classroom_id = ''CHEMISTRY_LAB_1'', teacher_id = ''HIST_REG_1'',
     student_ids = []\<rparr>, \<lparr>course_code = ''ART1'', section_id = 14, period = 2,
     semester = 1, classroom_id = ''GENERAL_3'', teacher_id = ''ART_REG_1'',
     student_ids = []\<rparr>, \<lparr>course_code = ''ART1'', section_id = 14, period = 2,
     semester = 2, classroom_id = ''GENERAL_3'', teacher_id = ''ART_REG_1'',
     student_ids = []\<rparr>, \<lparr>course_code = ''ARAB3'', section_id = 15, period = 2,
     semester = 1, classroom_id = ''GENERAL_4'', teacher_id = ''ARAB_REG_1'',
     student_ids = []\<rparr>, \<lparr>course_code = ''ARAB3'', section_id = 15, period = 2,
     semester = 2, classroom_id = ''GENERAL_4'', teacher_id = ''ARAB_REG_1'',
     student_ids = []\<rparr>, \<lparr>course_code = ''ENG12'', section_id = 16, period = 2,
     semester = 1, classroom_id = ''GENERAL_5'', teacher_id = ''ENG_REG_2'',
     student_ids = []\<rparr>, \<lparr>course_code = ''ENG12'', section_id = 16, period = 2,
     semester = 2, classroom_id = ''GENERAL_5'', teacher_id = ''ENG_REG_2'',
     student_ids = []\<rparr>, \<lparr>course_code = ''PRECALC'', section_id = 17, period = 2,
     semester = 1, classroom_id = ''GENERAL_6'', teacher_id = ''MATH_REG_2'',
     student_ids = []\<rparr>, \<lparr>course_code = ''PRECALC'', section_id = 17, period = 2,
     semester = 2, classroom_id = ''GENERAL_6'', teacher_id = ''MATH_REG_2'',
     student_ids = []\<rparr>, \<lparr>course_code = ''USHIST'', section_id = 18, period = 2,
     semester = 1, classroom_id = ''BIOLOGY_LAB_1'', teacher_id = ''HIST_REG_1'',
     student_ids = []\<rparr>, \<lparr>course_code = ''USHIST'', section_id = 18, period = 2,
     semester = 2, classroom_id = ''BIOLOGY_LAB_1'', teacher_id = ''HIST_REG_1'',
     student_ids = []\<rparr>, \<lparr>course_code = ''GOVT'', section_id = 19, period = 3,
     semester = 1, classroom_id = ''GENERAL_1'', teacher_id = ''HIST_REG_1'',
     student_ids = []\<rparr>, \<lparr>course_code = ''ARAB4'', section_id = 20, period = 3,
     semester = 1, classroom_id = ''GENERAL_2'', teacher_id = ''ARAB_REG_1'',
     student_ids = []\<rparr>, \<lparr>course_code = ''ARAB4'', section_id = 20, period = 3,
     semester = 2, classroom_id = ''GENERAL_2'', teacher_id = ''ARAB_REG_1'',
     student_ids = []\<rparr>, \<lparr>course_code = ''ECON'', section_id = 21, period = 3,
     semester = 1, classroom_id = ''GENERAL_3'', teacher_id = ''HIST_REG_2'',
     student_ids = []\<rparr>], classrooms = [\<lparr>classroom_ident = ''GENERAL_1'',
     classroom_name = ''Room 1'', room_type = GENERAL, capacity = 25\<rparr>,
     \<lparr>classroom_ident = ''GENERAL_2'', classroom_name = ''Room 2'', room_type = GENERAL,
     capacity = 25\<rparr>, \<lparr>classroom_ident = ''GENERAL_3'',
     classroom_name = ''Room 3'', room_type = GENERAL, capacity = 25\<rparr>,
     \<lparr>classroom_ident = ''GENERAL_4'', classroom_name = ''Room 4'', room_type = GENERAL,
     capacity = 25\<rparr>, \<lparr>classroom_ident = ''GENERAL_5'',
     classroom_name = ''Room 5'', room_type = GENERAL, capacity = 25\<rparr>,
     \<lparr>classroom_ident = ''GENERAL_6'', classroom_name = ''Room 6'', room_type = GENERAL,
     capacity = 25\<rparr>, \<lparr>classroom_ident = ''BIOLOGY_LAB_1'',
     classroom_name = ''Bio Lab 1'', room_type = BIOLOGY_LAB, capacity = 25\<rparr>,
     \<lparr>classroom_ident = ''GYM_1'', classroom_name = ''Gymnasium 1'', room_type = GYM,
     capacity = 25\<rparr>, \<lparr>classroom_ident = ''CHEMISTRY_LAB_1'',
     classroom_name = ''Chem Lab 1'', room_type = CHEMISTRY_LAB, capacity = 25\<rparr>],
     teachers = [\<lparr>teacher_ident = ''ENG_REG_1'', teacher_name = ''ENG Teacher 1'',
     subject_areas = [ENGLISH], can_teach_ap = False, max_periods_per_day = 2\<rparr>,
     \<lparr>teacher_ident = ''ENG_REG_2'', teacher_name = ''ENG Teacher 2'',
     subject_areas = [ENGLISH], can_teach_ap = False, max_periods_per_day = 2\<rparr>,
     \<lparr>teacher_ident = ''MATH_REG_1'', teacher_name = ''MATH Teacher 1'',
     subject_areas = [MATHEMATICS], can_teach_ap = False, max_periods_per_day = 2\<rparr>,
     \<lparr>teacher_ident = ''MATH_REG_2'', teacher_name = ''MATH Teacher 2'',
     subject_areas = [MATHEMATICS], can_teach_ap = False, max_periods_per_day = 2\<rparr>,
     \<lparr>teacher_ident = ''SCI_REG_1'', teacher_name = ''SCI Teacher 1'',
     subject_areas = [LABORATORY_SCIENCE], can_teach_ap = False,
     max_periods_per_day = 2\<rparr>, \<lparr>teacher_ident = ''ARAB_REG_1'',
     teacher_name = ''ARAB Teacher 1'', subject_areas = [LANGUAGE_OTHER], can_teach_ap = False,
     max_periods_per_day = 2\<rparr>, \<lparr>teacher_ident = ''ARAB_REG_2'',
     teacher_name = ''ARAB Teacher 2'', subject_areas = [LANGUAGE_OTHER], can_teach_ap = False,
     max_periods_per_day = 2\<rparr>, \<lparr>teacher_ident = ''PE_REG_1'',
     teacher_name = ''PE Teacher 1'', subject_areas = [PHYSICAL_EDUCATION],
     can_teach_ap = False, max_periods_per_day = 2\<rparr>,
     \<lparr>teacher_ident = ''HIST_REG_1'', teacher_name = ''HIST Teacher 1'',
     subject_areas = [HISTORY_SOCIAL_SCIENCE], can_teach_ap = False,
     max_periods_per_day = 2\<rparr>, \<lparr>teacher_ident = ''HIST_REG_2'',
     teacher_name = ''HIST Teacher 2'', subject_areas = [HISTORY_SOCIAL_SCIENCE],
     can_teach_ap = False, max_periods_per_day = 2\<rparr>,
     \<lparr>teacher_ident = ''ART_REG_1'', teacher_name = ''ART Teacher 1'',
     subject_areas = [VISUAL_PERFORMING_ARTS], can_teach_ap = False,
     max_periods_per_day = 2\<rparr>]\<rparr>"





text \<open>Two sections in one room with one teacher, in period 7 and in period 6.\<close>

definition clash :: "int \<Rightarrow> MasterSchedule" where
  "clash p =
     \<lparr>sections =
        [\<lparr>course_code = ''ENG9'', section_id = 1, period = p, semester = 1,
          classroom_id = ''GENERAL_1'', teacher_id = ''ENG_REG_1'', student_ids = []\<rparr>,
         \<lparr>course_code = ''ENG10'', section_id = 2, period = p, semester = 1,
          classroom_id = ''GENERAL_1'', teacher_id = ''ENG_REG_1'', student_ids = []\<rparr>],
      classrooms = [], teachers = []\<rparr>"

section \<open>The placement loops\<close>

lemma find_room_Some:
  "find_room st sem p rooms = Some room \<Longrightarrow> classroom_available st (sem, p, classroom_ident room)"
  by (induction rooms) (auto split: if_splits)

lemma find_teacher_Some:
  "find_teacher st sem p ts = Some teacher \<Longrightarrow> teacher_available st (sem, p, teacher_ident teacher)"
  by (induction ts) (auto split: if_splits)

lemma period_loop_True: "period_loop crs c rooms ts sem ps (True, st) = (True, st)"
  by (cases ps) auto

lemma period_loop_cases:
  "period_loop crs c rooms ts sem ps (b, st) = (b', st') \<Longrightarrow>
     (b' = b \<and> st' = st)
     \<or> (\<not> b \<and> b' \<and> (\<exists>p room teacher. slot_free st sem p room teacher
                          \<and> st' = placed crs c sem p room teacher st))"
proof (induction ps arbitrary: b st)
  case Nil
  then show ?case by simp
next
  case (Cons p ps)
  show ?case
  proof (cases b)
    case True
    with Cons.prems show ?thesis by simp
  next
    case False
    show ?thesis
    proof (cases "find_room st sem p rooms")
      case None
      with False Cons.prems have "period_loop crs c rooms ts sem ps (b, st) = (b', st')" by simp
      then show ?thesis by (rule Cons.IH)
    next
      case (Some room)
      note room = this
      show ?thesis
      proof (cases "find_teacher st sem p ts")
        case None
        with False room Cons.prems have "period_loop crs c rooms ts sem ps (b, st) = (b', st')"
          by simp
        then show ?thesis by (rule Cons.IH)
      next
        case (Some teacher)
        with False room Cons.prems
        have "b' = True \<and> st' = placed crs c sem p room teacher st"
          by (simp add: period_loop_True placed_def)
        moreover have "slot_free st sem p room teacher"
          using find_room_Some [OF room] find_teacher_Some [OF Some] by (simp add: slot_free_def)
        ultimately show ?thesis using False by blast
      qed
    qed
  qed
qed

lemma semester_loop_cases:
  "fold (\<lambda>sem. period_loop crs c rooms ts sem ps) sems (b, st) = (b', st') \<Longrightarrow>
     (b' = b \<and> st' = st)
     \<or> (\<not> b \<and> b' \<and> (\<exists>sem p room teacher. sem \<in> set sems \<and> slot_free st sem p room teacher
                          \<and> st' = placed crs c sem p room teacher st))"
proof (induction sems arbitrary: b st)
  case Nil
  then show ?case by simp
next
  case (Cons sem sems)
  obtain b1 st1 where step: "period_loop crs c rooms ts sem ps (b, st) = (b1, st1)"
    by (cases "period_loop crs c rooms ts sem ps (b, st)")
  with Cons.prems
  have rest: "fold (\<lambda>sem. period_loop crs c rooms ts sem ps) sems (b1, st1) = (b', st')"
    by simp
  from period_loop_cases [OF step] show ?case
  proof
    assume "b1 = b \<and> st1 = st"
    with Cons.IH [OF rest] show ?thesis by auto
  next
    assume placed1: "\<not> b \<and> b1 \<and> (\<exists>p room teacher. slot_free st sem p room teacher
                          \<and> st1 = placed crs c sem p room teacher st)"
    with Cons.IH [OF rest] have "b' = b1 \<and> st' = st1" by auto
    with placed1 show ?thesis by auto
  qed
qed

lemma schedule_unit_cases:
  "schedule_unit crs c rooms ts ppd st = warned crs st
   \<or> (\<exists>sem p room teacher. sem \<in> set (semesters_to_schedule crs)
          \<and> slot_free st sem p room teacher
          \<and> schedule_unit crs c rooms ts ppd st = placed crs c sem p room teacher st)"
proof -
  obtain b' st' where r:
    "fold (\<lambda>sem. period_loop crs c rooms ts sem [1..ppd]) (semesters_to_schedule crs) (False, st)
       = (b', st')"
    by (cases "fold (\<lambda>sem. period_loop crs c rooms ts sem [1..ppd]) (semesters_to_schedule crs)
                 (False, st)")
  from semester_loop_cases [OF r] show ?thesis
  proof
    assume "b' = False \<and> st' = st"
    with r show ?thesis by (simp add: schedule_unit_def warned_def)
  next
    assume "\<not> False \<and> b' \<and> (\<exists>sem p room teacher. sem \<in> set (semesters_to_schedule crs)
              \<and> slot_free st sem p room teacher \<and> st' = placed crs c sem p room teacher st)"
    with r show ?thesis by (auto simp: schedule_unit_def)
  qed
qed

lemma fold_invariant:
  "P s \<Longrightarrow> (\<And>x s. P s \<Longrightarrow> P (f x s)) \<Longrightarrow> P (fold f xs s)"
  by (induction xs arbitrary: s) auto

lemma schedule_course_invariant:
  assumes "P st"
    and warn: "\<And>crs st. P st \<Longrightarrow> COURSE_CATALOG e c = Some crs \<Longrightarrow> P (warned crs st)"
    and place: "\<And>crs sem p room teacher st.
      P st \<Longrightarrow> COURSE_CATALOG e c = Some crs \<Longrightarrow> sem \<in> set (semesters_to_schedule crs)
        \<Longrightarrow> slot_free st sem p room teacher \<Longrightarrow> P (placed crs c sem p room teacher st)"
  shows "P (schedule_course e ppd cls tchs sn c st)"
proof (cases "COURSE_CATALOG e c")
  case None
  with assms(1) show ?thesis by (simp add: schedule_course_def)
next
  case (Some crs)
  have unit: "P (schedule_unit crs c rooms ts ppd s)" if "P s" for rooms ts s
    using schedule_unit_cases [of crs c rooms ts ppd s] that warn [OF _ Some] place [OF _ Some]
    by auto
  show ?thesis
    using Some assms(1) unit by (simp add: schedule_course_def Let_def fold_invariant)
qed

lemma schedule_run_invariant:
  assumes "P st"
    and warn: "\<And>c crs st. P st \<Longrightarrow> COURSE_CATALOG e c = Some crs \<Longrightarrow> P (warned crs st)"
    and place: "\<And>c crs sem p room teacher st.
      P st \<Longrightarrow> COURSE_CATALOG e c = Some crs \<Longrightarrow> sem \<in> set (semesters_to_schedule crs)
        \<Longrightarrow> slot_free st sem p room teacher \<Longrightarrow> P (placed crs c sem p room teacher st)"
  shows "P (fold (schedule_course e ppd cls tchs sn) cs st)"
  using assms(1)
proof (induction cs arbitrary: st)
  case Nil
  then show ?case by simp
next
  case (Cons c cs)
  have "P (schedule_course e ppd cls tchs sn c st)"
    by (rule schedule_course_invariant [OF Cons.prems warn place])
  then show ?case using Cons.IH by simp
qed























lemma create_schedule_Inr:
  assumes "create_schedule e self = Inr (ms, out)"
  shows "\<exists>cls tchs sn. calculate_sections_needed e (calculator self) = Inr sn
     \<and> sections ms = scheduled_sections
           (fold (schedule_course e (sched_periods_per_day self) cls tchs sn)
              (sorted_courses e sn) initial_state)
     \<and> out = printed (fold (schedule_course e (sched_periods_per_day self) cls tchs sn)
              (sorted_courses e sn) initial_state)"
  using assms by (fastforce simp: create_schedule_def Let_def split: sum.splits)

section \<open>Semesters, section ids and warnings\<close>

lemma semester_rule_initial: "semester_rule e initial_state"
  by (simp add: semester_rule_def initial_state_def)

lemma semester_rule_warned: "semester_rule e st \<Longrightarrow> semester_rule e (warned crs st)"
  by (simp add: semester_rule_def warned_def)

lemma semester_rule_placed:
  assumes "semester_rule e st" and "COURSE_CATALOG e c = Some crs"
    and "sem \<in> set (semesters_to_schedule crs)"
  shows "semester_rule e (placed crs c sem p room teacher st)"
proof -
  from assms(3) have "semesters crs = 2 \<or> sem = 1"
    by (auto simp: semesters_to_schedule_def split: if_splits)
  with assms(1,2) show ?thesis
    by (auto simp: semester_rule_def placed_def mirror_section_def place_section_def)
qed

lemma semester_rule_run:
  "semester_rule e (fold (schedule_course e ppd cls tchs sn) cs initial_state)"
proof (rule schedule_run_invariant [where P = "semester_rule e"])
  show "semester_rule e initial_state" by (rule semester_rule_initial)
qed (simp_all add: semester_rule_warned semester_rule_placed)







lemma insort_key_decorated:
  "insort_key fst (f x, x) (map (\<lambda>x. (f x, x)) ys) = map (\<lambda>x. (f x, x)) (insort_key f x ys)"
  by (induction ys) simp_all

lemma sort_key_decorated:
  "sort_key fst (map (\<lambda>x. (f x, x)) xs) = map (\<lambda>x. (f x, x)) (sort_key f xs)"
  by (induction xs) (simp_all add: insort_key_decorated)

lemma py_sorted_sort_key: "py_sorted f xs = sort_key f xs"
  by (simp add: py_sorted_def sort_key_decorated comp_def)







section \<open>Demand and section counts\<close>


















section \<open>The catalog and the configuration\<close>

lemma get_all_courses_catalog:
  "get_all_courses (e\<lparr>COURSE_CATALOG := cat\<rparr>) = get_all_courses e"
  by (rule ext) (simp add: get_all_courses_def)

lemma course_demand_catalog: "course_demand (e\<lparr>COURSE_CATALOG := cat\<rparr>) self = course_demand e self"
proof -
  have 1: "demand_of_year_plan (e\<lparr>COURSE_CATALOG := cat\<rparr>) = demand_of_year_plan e"
    by (intro ext) (simp add: demand_of_year_plan_def get_all_courses_catalog)
  have 2: "demand_of_path (e\<lparr>COURSE_CATALOG := cat\<rparr>) = demand_of_path e"
    by (intro ext) (simp add: demand_of_path_def 1)
  show ?thesis by (simp add: course_demand_def 2)
qed

lemma room_fold_known:
  "fold (add_room_sections e) sn d = fold (add_room_sections e) (filter (known e) sn) d"
  by (induction sn arbitrary: d) (auto simp: known_def add_room_sections_def)

lemma subject_fold_known:
  "fold (add_subject_sections e) sn d = fold (add_subject_sections e) (filter (known e) sn) d"
  by (induction sn arbitrary: d) (auto simp: known_def add_subject_sections_def)




section \<open>Minimum teachers\<close>










section \<open>Evaluations at the concrete inputs\<close>


lemma minimum20_sections_eval:
  "calculate_sections_needed demo_env (ResourceCalculator_init demo_env [(MINIMUM, 20)] 25 6)
     = Inr minimum20_sections"
  by code_simp

lemma small_sections_eval:
  "calculate_sections_needed demo_env (calculator small_scheduler) = Inr minimum20_sections"
  by code_simp




lemma minimum20_order_eval: "sorted_courses demo_env minimum20_sections = minimum20_order"
  by code_simp

lemma REL1_absent: "COURSE_CATALOG demo_env ''REL1'' = None"
  by code_simp

lemma tie_priority: "course_priority demo_env ''ARAB1'' = course_priority demo_env ''ALG2''"
  by code_simp

lemma tie_codes: "''ALG2'' < ''ARAB1''"
  by code_simp




lemma clash_7: "validate demo_env (clash 7) = Inr []"
  by code_simp

lemma clash_6:
  "validate demo_env (clash 6) =
     Inr [Classroom_conflict ''GENERAL_1'' 6 1 [''English 9'', ''English 10''],
          Teacher_conflict ''ENG_REG_1'' 6 1 [''English 9'', ''English 10'']]"
  by code_simp

lemma arab_load:
  "length (filter (\<lambda>s. teacher_id s = ''ARAB_REG_1'') (sections small_schedule)) = 6"
  by code_simp

lemma small_run: "create_schedule demo_env small_scheduler = Inr (small_schedule, [])"
  by code_simp

lemma GOVT_course:
  "COURSE_CATALOG demo_env ''GOVT''
     = Some (mk_course ''GOVT'' ''US Government'' HISTORY_SOCIAL_SCIENCE REGULAR 5 1 GENERAL)"
  by code_simp

lemma CHEM_AP_course:
  "COURSE_CATALOG demo_env ''CHEM-AP''
     = Some (mk_course ''CHEM-AP'' ''AP Chemistry'' LABORATORY_SCIENCE AP 10 2 CHEMISTRY_LAB)"
  by code_simp

section \<open>Properties of the schedule\<close>






text \<open>
  C3. The claim is that no teacher has more than \<open>(periods_per_day - 1) * 2\<close> sections
  over both semesters. The load counter the loop compares with that bound is raised once
  per placement and not for the semester-2 mirror, so the bound is not kept: with 20
  students on the minimum path, classes of 25 and three periods a day, the teacher
  \<open>ARAB_REG_1\<close> has 6 sections and the bound is 4.
\<close>

theorem C3_teacher_load_exceeds_cap:
  "create_schedule demo_env small_scheduler = Inr (small_schedule, [])
   \<and> length (filter (\<lambda>s. teacher_id s = ''ARAB_REG_1'') (sections small_schedule)) = 6
   \<and> (sched_periods_per_day small_scheduler - 1) * 2 = 4"
  using small_run arab_load by (simp add: small_scheduler_def Scheduler_init_def)




text \<open>
  C5. The claim is that \<open>validate\<close> returns the empty list exactly when no classroom
  and no teacher is in two sections of one period and semester, for every period up to
  \<open>periods_per_day\<close>. \<open>validate\<close> looks at the periods 1 to 6 only: two sections that
  share room and teacher in period 7 give the empty list, and the same two in period 6 are
  reported.
\<close>

theorem C5_period_7_not_checked:
  "validate demo_env (clash 7) = Inr []
   \<and> room_slot (sections (clash 7) ! 0) = room_slot (sections (clash 7) ! 1)
   \<and> teacher_slot (sections (clash 7) ! 0) = teacher_slot (sections (clash 7) ! 1)
   \<and> validate demo_env (clash 6) =
       Inr [Classroom_conflict ''GENERAL_1'' 6 1 [''English 9'', ''English 10''],
            Teacher_conflict ''ENG_REG_1'' 6 1 [''English 9'', ''English 10'']]"
  using clash_7 clash_6 by (simp add: clash_def room_slot_def teacher_slot_def)




text \<open>
  C7, as amended. The scheduling order is the list of the keys of \<open>sections_needed\<close>
  sorted stably by descending priority weight: a permutation of the keys, in ascending order
  of \<open>course_priority\<close> (the negated weight), in which the courses of equal weight keep
  the order they have among the keys. The weight of a catalogued course is 100 for AP level
  plus 50 for a room requirement other than \<open>GENERAL\<close>.
\<close>

theorem C7_stable_priority_order:
  "sorted (map (course_priority e) (sorted_courses e sn))
   \<and> mset (sorted_courses e sn) = mset (map fst sn)
   \<and> (\<forall>k. filter (\<lambda>c. course_priority e c = k) (sorted_courses e sn)
            = filter (\<lambda>c. course_priority e c = k) (map fst sn))
   \<and> (\<forall>c crs. COURSE_CATALOG e c = Some crs \<longrightarrow>
         - course_priority e c
           = (if level crs = AP then 100 else 0)
             + (if room_type_required crs \<noteq> GENERAL then 50 else 0))"
proof -
  have "\<forall>c crs. COURSE_CATALOG e c = Some crs \<longrightarrow>
         - course_priority e c
           = (if level crs = AP then 100 else 0)
             + (if room_type_required crs \<noteq> GENERAL then 50 else 0)"
    by (simp add: course_priority_def)
  then show ?thesis
    by (simp only: sorted_courses_def py_sorted_sort_key sort_key_stable sorted_sort_key
        mset_sort simp_thms)
qed

theorem C7_stable_priority_order_witness:
  "COURSE_CATALOG demo_env ''CHEM-AP''
     = Some (mk_course ''CHEM-AP'' ''AP Chemistry'' LABORATORY_SCIENCE AP 10 2 CHEMISTRY_LAB)
   \<and> - course_priority demo_env ''CHEM-AP'' = 150
   \<and> sorted (map (course_priority demo_env) (sorted_courses demo_env minimum20_sections))
   \<and> mset (sorted_courses demo_env minimum20_sections) = mset (map fst minimum20_sections)
   \<and> filter (\<lambda>c. course_priority demo_env c = 0) (sorted_courses demo_env minimum20_sections)
       = filter (\<lambda>c. course_priority demo_env c = 0) (map fst minimum20_sections)"
proof -
  note t = C7_stable_priority_order [of demo_env minimum20_sections]
  from t CHEM_AP_course
  have "- course_priority demo_env ''CHEM-AP''
          = (if level (mk_course ''CHEM-AP'' ''AP Chemistry'' LABORATORY_SCIENCE AP 10 2
                         CHEMISTRY_LAB) = AP then 100 else 0)
            + (if room_type_required (mk_course ''CHEM-AP'' ''AP Chemistry'' LABORATORY_SCIENCE
                         AP 10 2 CHEMISTRY_LAB) \<noteq> GENERAL then 50 else 0)"
    by blast
  then have "- course_priority demo_env ''CHEM-AP'' = 150" by (simp add: mk_course_def)
  with t CHEM_AP_course show ?thesis by blast
qed

text \<open>
  The claim as stated fails: \<open>ARAB1\<close> and \<open>ALG2\<close> have the same priority weight and
  \<open>ALG2\<close> is the smaller code, yet \<open>ARAB1\<close>, a course of year 1, comes first.
\<close>

theorem C7_tie_counterexample:
  "calculate_sections_needed demo_env (ResourceCalculator_init demo_env [(MINIMUM, 20)] 25 6)
     = Inr minimum20_sections
   \<and> sorted_courses demo_env minimum20_sections = minimum20_order
   \<and> minimum20_order ! 6 = ''ARAB1'' \<and> minimum20_order ! 13 = ''ALG2''
   \<and> course_priority demo_env ''ARAB1'' = course_priority demo_env ''ALG2''
   \<and> ''ALG2'' < ''ARAB1''"
  using minimum20_sections_eval minimum20_order_eval tie_priority tie_codes
  by (simp add: minimum20_order_def)

text \<open>
  C8, as amended. The section counts do not depend on the catalog, so a code absent from
  it keeps its counts in \<open>calculate_sections_needed\<close>. The minimum classrooms and the
  minimum teachers are those of the entries whose code is in the catalog, and the
  scheduler leaves the state as it is at such a code; no warning is recorded anywhere.
\<close>

theorem C8_absent_codes_skipped_silently:
  "calculate_sections_needed (e\<lparr>COURSE_CATALOG := cat\<rparr>) self = calculate_sections_needed e self
   \<and> min_classrooms_of e ppd sn = min_classrooms_of e ppd (filter (known e) sn)
   \<and> min_teachers_of e ppd sn = min_teachers_of e ppd (filter (known e) sn)
   \<and> (COURSE_CATALOG e c = None \<longrightarrow> schedule_course e ppd cls tchs sn c st = st)"
proof -
  have "room_type_sections e sn = room_type_sections e (filter (known e) sn)"
    unfolding room_type_sections_def by (rule room_fold_known)
  moreover have "subject_sections e sn = subject_sections e (filter (known e) sn)"
    unfolding subject_sections_def by (rule subject_fold_known)
  ultimately show ?thesis
    by (simp add: calculate_sections_needed_def course_demand_catalog min_classrooms_of_def
        min_teachers_of_def schedule_course_def)
qed

theorem C8_absent_codes_skipped_silently_witness:
  "COURSE_CATALOG demo_env ''REL1'' = None
   \<and> schedule_course demo_env 6 [] [] minimum20_sections ''REL1'' initial_state = initial_state
   \<and> min_classrooms_of demo_env 6 minimum20_sections
       = min_classrooms_of demo_env 6 (filter (known demo_env) minimum20_sections)
   \<and> min_teachers_of demo_env 6 minimum20_sections
       = min_teachers_of demo_env 6 (filter (known demo_env) minimum20_sections)"
  using C8_absent_codes_skipped_silently
          [where e = demo_env and ppd = 6 and sn = minimum20_sections and c = "''REL1''"
             and cls = "[]" and tchs = "[]" and st = initial_state]
        REL1_absent
  by simp

text \<open>
  The claim as stated fails: the plans list \<open>REL1\<close>, the catalog does not have it, and
  it has a section count.
\<close>

theorem C8_absent_code_counted_counterexample:
  "calculate_sections_needed demo_env (ResourceCalculator_init demo_env [(MINIMUM, 20)] 25 6)
     = Inr minimum20_sections
   \<and> COURSE_CATALOG demo_env ''REL1'' = None
   \<and> lookup2 minimum20_sections ''REL1'' 1 = Some 1"
  using minimum20_sections_eval REL1_absent by (simp add: minimum20_sections_def lookup2_def)




text \<open>
  C10. In every schedule \<open>create_schedule\<close> returns, a section whose course lasts one
  semester is in semester 1: the loop tries such a course in semester 1 only, and a unit
  that finds no period there is left unplaced.
\<close>

theorem C10_single_semester_in_semester_1:
  assumes "create_schedule e self = Inr (ms, out)" and "s \<in> set (sections ms)"
    and "COURSE_CATALOG e (course_code s) = Some crs" and "semesters crs = 1"
  shows "semester s = 1"
proof -
  from create_schedule_Inr [OF assms(1)] obtain cls tchs sn
    where "sections ms = scheduled_sections
           (fold (schedule_course e (sched_periods_per_day self) cls tchs sn)
              (sorted_courses e sn) initial_state)"
    by blast
  with semester_rule_run [of e "sched_periods_per_day self" cls tchs sn "sorted_courses e sn"]
    assms(2)
  have "\<exists>crs. COURSE_CATALOG e (course_code s) = Some crs
              \<and> (semesters crs = 2 \<or> semester s = 1)"
    by (simp add: semester_rule_def)
  with assms(3,4) show ?thesis by auto
qed

theorem C10_single_semester_in_semester_1_witness:
  "create_schedule demo_env small_scheduler = Inr (small_schedule, [])
   \<and> sections small_schedule ! 36 \<in> set (sections small_schedule)
   \<and> course_code (sections small_schedule ! 36) = ''GOVT''
   \<and> COURSE_CATALOG demo_env ''GOVT''
       = Some (mk_course ''GOVT'' ''US Government'' HISTORY_SOCIAL_SCIENCE REGULAR 5 1 GENERAL)
   \<and> semesters (mk_course ''GOVT'' ''US Government'' HISTORY_SOCIAL_SCIENCE REGULAR 5 1 GENERAL)
       = 1
   \<and> semester (sections small_schedule ! 36) = 1"
proof -
  have len: "36 < length (sections small_schedule)" by (simp add: small_schedule_def)
  then have mem: "sections small_schedule ! 36 \<in> set (sections small_schedule)"
    by (rule nth_mem)
  have c: "course_code (sections small_schedule ! 36) = ''GOVT''"
    by (simp add: small_schedule_def)
  have cat: "COURSE_CATALOG demo_env (course_code (sections small_schedule ! 36))
       = Some (mk_course ''GOVT'' ''US Government'' HISTORY_SOCIAL_SCIENCE REGULAR 5 1 GENERAL)"
    using GOVT_course c by simp
  have one:
    "semesters (mk_course ''GOVT'' ''US Government'' HISTORY_SOCIAL_SCIENCE REGULAR 5 1 GENERAL)
       = 1"
    by (simp add: mk_course_def)
  from C10_single_semester_in_semester_1 [OF small_run mem cat one] small_run mem c GOVT_course one
  show ?thesis by simp
qed

end
